theory Spec2Isabelle
  imports Complex_Main
begin

section \<open>Message converter (utils/anthropicHelpers.ts)\<close>

subsection \<open>Data model\<close>

text \<open>
  The role of a chat message: \<^verbatim>\<open>'system' | 'user' | 'assistant' | 'function'\<close>.
\<close>

datatype Role = System | User | Assistant | Function

text \<open>
  A part of a multipart message content, a union tagged by its \<^verbatim>\<open>type\<close> field:
  \<^verbatim>\<open>{type: 'text', text}\<close> or \<^verbatim>\<open>{type: 'image_url', image_url: {url}}\<close>.
\<close>

datatype UserMessageContentPart = TextPart string | ImageUrlPart string

text \<open>The content of a message: \<^verbatim>\<open>string | UserMessageContentPart[]\<close>.\<close>

datatype MessageContent = StringContent string | PartsContent "UserMessageContentPart list"

record OpenAIChatMessage =
  content :: MessageContent
  role :: Role

text \<open>
  A thrown JavaScript error, read by the adapter through \<^verbatim>\<open>err.name\<close>,
  \<^verbatim>\<open>err.message\<close> and \<^verbatim>\<open>err.$metadata\<close> (of type \<^verbatim>\<open>any\<close>, absent on an error
  that is not the vendor's).
\<close>

record 'm Error =
  err_name :: string
  err_message :: string
  err_metadata :: "'m option"

text \<open>
  What \<^verbatim>\<open>parseDataUri\<close> returns. The source destructures the fields \<^verbatim>\<open>mimeType\<close> and
  \<^verbatim>\<open>base64\<close> and casts each to a string, so each of them may be null (\<open>None\<close>).
\<close>

record UriParserResult =
  base64 :: "string option"
  mimeType :: "string option"

text \<open>The vendor's image block: \<^verbatim>\<open>{source: {data, media_type, type}, type}\<close>.\<close>

record Source =
  data :: "string option"
  media_type :: "string option"
  source_type :: string

record ImageBlockParam =
  source :: Source
  block_type :: string

text \<open>
  \<^verbatim>\<open>Anthropic.ContentBlock | Anthropic.ImageBlockParam\<close>: a text part is returned as the
  object it is, an image part as a new image block.
\<close>

datatype AnthropicBlock = ContentBlock UserMessageContentPart | ImageBlock ImageBlockParam

datatype ParamContent = ParamString string | ParamBlocks "AnthropicBlock list"

record MessageParam =
  param_content :: ParamContent
  param_role :: Role

subsection \<open>Operations\<close>

text \<open>
  \<^verbatim>\<open>Array.prototype.map\<close> with a callback that may throw: the elements are converted from
  left to right and the first throw ends the whole map.
\<close>

fun array_map :: "('a \<Rightarrow> 'e + 'b) \<Rightarrow> 'a list \<Rightarrow> 'e + 'b list" where
  "array_map f [] = Inr []"
| "array_map f (x # xs) =
     (case f x of
        Inl e \<Rightarrow> Inl e
      | Inr y \<Rightarrow> (case array_map f xs of Inl e \<Rightarrow> Inl e | Inr ys \<Rightarrow> Inr (y # ys)))"

text \<open>
  \<^verbatim>\<open>buildAnthropicBlock\<close>. The decoder \<^verbatim>\<open>parseDataUri\<close> (utils/uriParser) is not among
  the sources: it is the parameter \<open>parse\<close>, which either throws (\<open>Inl\<close>) or returns
  its two fields.
\<close>

fun buildAnthropicBlock ::
  "(string \<Rightarrow> 'm Error + UriParserResult) \<Rightarrow> UserMessageContentPart \<Rightarrow> 'm Error + AnthropicBlock"
where
  "buildAnthropicBlock parse (TextPart t) = Inr (ContentBlock (TextPart t))"
| "buildAnthropicBlock parse (ImageUrlPart url) =
     (case parse url of
        Inl e \<Rightarrow> Inl e
      | Inr r \<Rightarrow>
          Inr (ImageBlock
            \<lparr>source = \<lparr>data = base64 r, media_type = mimeType r, source_type = ''base64''\<rparr>,
             block_type = ''image''\<rparr>))"

definition buildAnthropicMessage ::
  "(string \<Rightarrow> 'm Error + UriParserResult) \<Rightarrow> OpenAIChatMessage \<Rightarrow> 'm Error + MessageParam"
where
  "buildAnthropicMessage parse msg =
     (case (case content msg of
              StringContent s \<Rightarrow> Inr (ParamString s)
            | PartsContent cs \<Rightarrow>
                (case array_map (buildAnthropicBlock parse) cs of
                   Inl e \<Rightarrow> Inl e
                 | Inr bs \<Rightarrow> Inr (ParamBlocks bs))) of
        Inl e \<Rightarrow> Inl e
      | Inr c \<Rightarrow>
          Inr \<lparr>param_content = c,
               param_role = (if role msg = Function \<or> role msg = System then Assistant else role msg)\<rparr>)"

definition buildAnthropicMessages ::
  "(string \<Rightarrow> 'm Error + UriParserResult) \<Rightarrow> OpenAIChatMessage list \<Rightarrow> 'm Error + MessageParam list"
where
  "buildAnthropicMessages parse msgs = array_map (buildAnthropicMessage parse) msgs"

text \<open>\<^verbatim>\<open>String.prototype.startsWith\<close>.\<close>

definition startsWith :: "string \<Rightarrow> string \<Rightarrow> bool" where
  "startsWith s p = (take (length p) s = p)"

text \<open>
  Modelled from the spec: the decoder \<^verbatim>\<open>parseDataUri\<close> of utils/uriParser, which is not
  among the sources. The spec has it decompose a data URI into a MIME type and a base64
  payload (\<^verbatim>\<open>data:image/png;base64,AAAA\<close> gives \<^verbatim>\<open>image/png\<close> and \<^verbatim>\<open>AAAA\<close>) and
  fail on a malformed URI. It is used for concrete examples only; the operations above
  take the decoder as a parameter.
\<close>

fun split_marker :: "string \<Rightarrow> string \<Rightarrow> string \<Rightarrow> (string \<times> string) option" where
  "split_marker mk acc [] = None"
| "split_marker mk acc (c # cs) =
     (if startsWith (c # cs) mk then Some (rev acc, drop (length mk) (c # cs))
      else split_marker mk (c # acc) cs)"

definition malformedDataUri :: "'m Error" where
  "malformedDataUri = \<lparr>err_name = ''Error'', err_message = ''malformed data URI'', err_metadata = None\<rparr>"

definition parseDataUri_spec :: "string \<Rightarrow> 'm Error + UriParserResult" where
  "parseDataUri_spec uri =
     (if startsWith uri ''data:'' then
        (case split_marker '';base64,'' [] (drop 5 uri) of
           Some (m, d) \<Rightarrow> Inr \<lparr>base64 = Some d, mimeType = Some m\<rparr>
         | None \<Rightarrow> Inl malformedDataUri)
      else Inl malformedDataUri)"

section \<open>Provider adapter (bedrock/index.ts)\<close>

subsection \<open>Data model\<close>

text \<open>
  \<^verbatim>\<open>ChatStreamPayload\<close>, with the fields the adapter reads. \<^verbatim>\<open>max_tokens\<close> is an optional
  integer, \<^verbatim>\<open>temperature\<close> and \<^verbatim>\<open>top_p\<close> are optional numbers that are only passed on.
\<close>

record ChatStreamPayload =
  max_tokens :: "int option"
  messages :: "OpenAIChatMessage list"
  model :: string
  temperature :: "real option"
  top_p :: "real option"

record 'c ChatCompetitionOptions =
  callback :: "'c option"

record LobeBedrockAIParams =
  accessKeyId :: "string option"
  accessKeySecret :: "string option"
  region :: "string option"

text \<open>The vendor client, as the configuration it is created with.\<close>

record Credentials =
  credentials_accessKeyId :: string
  secretAccessKey :: string

record BedrockRuntimeClient =
  credentials :: Credentials
  client_region :: string

text \<open>The adapter instance: \<^verbatim>\<open>this.client\<close> and \<^verbatim>\<open>this.region\<close>.\<close>

record LobeBedrockAI =
  this_client :: BedrockRuntimeClient
  this_region :: string

datatype AgentRuntimeErrorType = InvalidBedrockCredentials | BedrockBizError

datatype ModelProvider = Bedrock

text \<open>
  The argument of \<^verbatim>\<open>AgentRuntimeError.chat\<close>:
  \<^verbatim>\<open>{error: {body, message, region?, type}, errorType, provider, region}\<close>.
\<close>

record 'm ErrorDetail =
  error_body :: "'m option"
  error_message :: string
  error_region :: "string option"
  error_type :: string

record 'm ChatCompletionErrorPayload =
  error :: "'m ErrorDetail"
  errorType :: AgentRuntimeErrorType
  provider :: ModelProvider
  payload_region :: string

text \<open>
  Modelled from the spec: the error factories \<^verbatim>\<open>AgentRuntimeError.createError\<close> and
  \<^verbatim>\<open>AgentRuntimeError.chat\<close> of utils/createError, which are not among the sources. The
  spec has the adapter's error carry its kind, provider, region, original message,
  original error type name and raw metadata, so the value thrown is the factory applied
  to the argument it was given. \<open>Uncaught\<close> is an error of a callee that no handler of
  the adapter catches.
\<close>

datatype 'm Thrown =
  AgentRuntimeError_createError AgentRuntimeErrorType
| AgentRuntimeError_chat "'m ChatCompletionErrorPayload"
| Uncaught "'m Error"

text \<open>
  The values of the members of a request body. \<^verbatim>\<open>JSON.stringify\<close> leaves out a member
  whose value is \<^verbatim>\<open>undefined\<close>; the text it returns is represented by the members it
  holds, in order.
\<close>

datatype BodyValue =
  Undefined
| Str string
| Num int
| Float real
| Messages "MessageParam list"
| Content MessageContent

definition JSON_stringify :: "(string \<times> BodyValue) list \<Rightarrow> (string \<times> BodyValue) list" where
  "JSON_stringify members = filter (\<lambda>(k, v). v \<noteq> Undefined) members"

definition optional :: "('a \<Rightarrow> BodyValue) \<Rightarrow> 'a option \<Rightarrow> BodyValue" where
  "optional f v = (case v of None \<Rightarrow> Undefined | Some x \<Rightarrow> f x)"

text \<open>\<^verbatim>\<open>v || d\<close> on an optional number: the default replaces every falsy value.\<close>

definition or_default :: "int option \<Rightarrow> int \<Rightarrow> int" where
  "or_default v d = (case v of None \<Rightarrow> d | Some n \<Rightarrow> if n = 0 then d else n)"

record InvokeModelWithResponseStreamCommand =
  accept :: string
  body :: "(string \<times> BodyValue) list"
  contentType :: string
  modelId :: string

datatype 's StreamingTextResponse = StreamingTextResponse 's

text \<open>\<^verbatim>\<open>stream.tee()\<close>: two branches of the same stream.\<close>

definition tee :: "'s \<Rightarrow> 's \<times> 's" where
  "tee stream = (stream, stream)"

text \<open>
  What the adapter calls and does not define. \<open>'r\<close> is the vendor's response, \<open>'s\<close> a
  text stream, \<open>'c\<close> the caller's callback, \<open>'m\<close> the vendor's metadata.
  \<^item> \<open>parseDataUri\<close>: the decoder of the message converter;
  \<^item> \<open>experimental_buildLlama2Prompt\<close>: the prompt template of the \<^verbatim>\<open>ai\<close> package;
  \<^item> \<open>client_send\<close>: \<^verbatim>\<open>await this.client.send(command)\<close>, rejected (\<open>Inl\<close>) or resolved;
  \<^item> \<open>AWSBedrockStream\<close>, \<open>AWSBedrockLlama2Stream\<close>: the stream parsers of the \<^verbatim>\<open>ai\<close>
    package (the first is given the callback; its third argument is a constant function);
  \<^item> \<open>debugStream\<close>: the drain of utils/debugStream. The source calls \<^verbatim>\<open>.catch\<close> on its
    result, a promise; the model has how that promise settles, \<open>Some e\<close> when it is
    rejected with \<open>e\<close>;
  \<^item> \<open>DEBUG_BEDROCK_CHAT_COMPLETION\<close>: the variable of \<^verbatim>\<open>process.env\<close>.
\<close>

record ('m, 'r, 's, 'c) Externals =
  parseDataUri :: "string \<Rightarrow> 'm Error + UriParserResult"
  experimental_buildLlama2Prompt :: "OpenAIChatMessage list \<Rightarrow> 'm Error + string"
  client_send :: "BedrockRuntimeClient \<Rightarrow> InvokeModelWithResponseStreamCommand \<Rightarrow> 'm Error + 'r"
  AWSBedrockStream :: "'r \<Rightarrow> 'c option \<Rightarrow> 'm Error + 's"
  AWSBedrockLlama2Stream :: "'r \<Rightarrow> 'm Error + 's"
  debugStream :: "'s \<Rightarrow> 'm Error option"
  DEBUG_BEDROCK_CHAT_COMPLETION :: "string option"

text \<open>
  What a call of \<^verbatim>\<open>chat\<close> does: the promise it returns (\<open>Inl\<close> when rejected), the commands
  sent to the vendor, the streams handed to \<^verbatim>\<open>debugStream\<close> and the errors written with
  \<^verbatim>\<open>console.error\<close>.
\<close>

record ('m, 's) Outcome =
  returned :: "'m Thrown + 's StreamingTextResponse"
  sent :: "InvokeModelWithResponseStreamCommand list"
  drained :: "'s list"
  logged :: "'m Error list"

subsection \<open>Operations\<close>

text \<open>
  The constructor, with the vendor clients it creates. \<^verbatim>\<open>!(accessKeyId && accessKeySecret)\<close>
  holds when either is undefined or the empty string; \<^verbatim>\<open>region ?? 'us-east-1'\<close> replaces
  an undefined region only, so an empty region is kept. \<^verbatim>\<open>new BedrockRuntimeClient\<close> is the
  vendor's: it is the parameter \<open>newClient\<close>, which gives \<open>Some e\<close> when the vendor's
  constructor throws \<open>e\<close> on the configuration. No handler of the adapter's constructor
  catches that error, and then no client and no instance exist.
\<close>

definition LobeBedrockAI_constructor ::
  "(BedrockRuntimeClient \<Rightarrow> 'm Error option) \<Rightarrow> LobeBedrockAIParams \<Rightarrow>
   BedrockRuntimeClient list \<times> ('m Thrown + LobeBedrockAI)"
where
  "LobeBedrockAI_constructor newClient params =
     (case (accessKeyId params, accessKeySecret params) of
        (Some keyId, Some keySecret) \<Rightarrow>
          if \<not> (keyId \<noteq> [] \<and> keySecret \<noteq> []) then
            ([], Inl (AgentRuntimeError_createError InvalidBedrockCredentials))
          else
            (let r = (case region params of None \<Rightarrow> ''us-east-1'' | Some x \<Rightarrow> x);
                 c = \<lparr>credentials = \<lparr>credentials_accessKeyId = keyId, secretAccessKey = keySecret\<rparr>,
                      client_region = r\<rparr>
             in case newClient c of
                  Some e \<Rightarrow> ([], Inl (Uncaught e))
                | None \<Rightarrow> ([c], Inr \<lparr>this_client = c, this_region = r\<rparr>))
      | _ \<Rightarrow> ([], Inl (AgentRuntimeError_createError InvalidBedrockCredentials)))"

text \<open>The constant \<^verbatim>\<open>command\<close> of \<^verbatim>\<open>invokeClaudeModel\<close>, built before its \<^verbatim>\<open>try\<close> block.\<close>

definition claudeCommand ::
  "('m, 'r, 's, 'c) Externals \<Rightarrow> ChatStreamPayload \<Rightarrow> 'm Error + InvokeModelWithResponseStreamCommand"
where
  "claudeCommand ext payload =
     (let system_message = find (\<lambda>m. role m = System) (messages payload);
          user_messages = filter (\<lambda>m. role m \<noteq> System) (messages payload)
      in case buildAnthropicMessages (parseDataUri ext) user_messages of
           Inl e \<Rightarrow> Inl e
         | Inr ms \<Rightarrow>
             Inr \<lparr>accept = ''application/json'',
                  body = JSON_stringify
                    [(''anthropic_version'', Str ''bedrock-2023-05-31''),
                     (''max_tokens'', Num (or_default (max_tokens payload) 4096)),
                     (''messages'', Messages ms),
                     (''system'', optional (\<lambda>m. Content (content m)) system_message),
                     (''temperature'', optional Float (temperature payload)),
                     (''top_p'', optional Float (top_p payload))],
                  contentType = ''application/json'',
                  modelId = model payload\<rparr>)"

text \<open>The \<^verbatim>\<open>catch\<close> block of \<^verbatim>\<open>invokeClaudeModel\<close>.\<close>

definition claudeCatch :: "LobeBedrockAI \<Rightarrow> 'm Error \<Rightarrow> 'm Thrown" where
  "claudeCatch this err =
     AgentRuntimeError_chat
       \<lparr>error = \<lparr>error_body = err_metadata err, error_message = err_message err,
                 error_region = None, error_type = err_name err\<rparr>,
        errorType = BedrockBizError,
        provider = Bedrock,
        payload_region = this_region this\<rparr>"

definition invokeClaudeModel ::
  "('m, 'r, 's, 'c) Externals \<Rightarrow> LobeBedrockAI \<Rightarrow> ChatStreamPayload \<Rightarrow>
   'c ChatCompetitionOptions option \<Rightarrow> ('m, 's) Outcome"
where
  "invokeClaudeModel ext this payload options =
     (case claudeCommand ext payload of
        Inl e \<Rightarrow> \<lparr>returned = Inl (Uncaught e), sent = [], drained = [], logged = []\<rparr>
      | Inr command \<Rightarrow>
          (case client_send ext (this_client this) command of
             Inl err \<Rightarrow>
               \<lparr>returned = Inl (claudeCatch this err), sent = [command], drained = [], logged = []\<rparr>
           | Inr bedrockResponse \<Rightarrow>
               (case AWSBedrockStream ext bedrockResponse
                       (case options of None \<Rightarrow> None | Some opts \<Rightarrow> callback opts) of
                  Inl err \<Rightarrow>
                    \<lparr>returned = Inl (claudeCatch this err), sent = [command], drained = [],
                     logged = []\<rparr>
                | Inr stream \<Rightarrow>
                    (case tee stream of
                       (debug, output) \<Rightarrow>
                         if DEBUG_BEDROCK_CHAT_COMPLETION ext = Some ''1'' then
                           \<lparr>returned = Inr (StreamingTextResponse output), sent = [command],
                            drained = [debug],
                            logged = (case debugStream ext debug of None \<Rightarrow> [] | Some e \<Rightarrow> [e])\<rparr>
                         else
                           \<lparr>returned = Inr (StreamingTextResponse output), sent = [command],
                            drained = [], logged = []\<rparr>))))"

text \<open>The constant \<^verbatim>\<open>command\<close> of \<^verbatim>\<open>invokeLlamaModel\<close>, built before its \<^verbatim>\<open>try\<close> block.\<close>

definition llamaCommand ::
  "('m, 'r, 's, 'c) Externals \<Rightarrow> ChatStreamPayload \<Rightarrow> 'm Error + InvokeModelWithResponseStreamCommand"
where
  "llamaCommand ext payload =
     (case experimental_buildLlama2Prompt ext (messages payload) of
        Inl e \<Rightarrow> Inl e
      | Inr prompt \<Rightarrow>
          Inr \<lparr>accept = ''application/json'',
               body = JSON_stringify
                 [(''max_gen_len'', Num (or_default (max_tokens payload) 400)),
                  (''prompt'', Str prompt)],
               contentType = ''application/json'',
               modelId = model payload\<rparr>)"

text \<open>The \<^verbatim>\<open>catch\<close> block of \<^verbatim>\<open>invokeLlamaModel\<close>: the region is in the detail too.\<close>

definition llamaCatch :: "LobeBedrockAI \<Rightarrow> 'm Error \<Rightarrow> 'm Thrown" where
  "llamaCatch this err =
     AgentRuntimeError_chat
       \<lparr>error = \<lparr>error_body = err_metadata err, error_message = err_message err,
                 error_region = Some (this_region this), error_type = err_name err\<rparr>,
        errorType = BedrockBizError,
        provider = Bedrock,
        payload_region = this_region this\<rparr>"

definition invokeLlamaModel ::
  "('m, 'r, 's, 'c) Externals \<Rightarrow> LobeBedrockAI \<Rightarrow> ChatStreamPayload \<Rightarrow> ('m, 's) Outcome"
where
  "invokeLlamaModel ext this payload =
     (case llamaCommand ext payload of
        Inl e \<Rightarrow> \<lparr>returned = Inl (Uncaught e), sent = [], drained = [], logged = []\<rparr>
      | Inr command \<Rightarrow>
          (case client_send ext (this_client this) command of
             Inl err \<Rightarrow>
               \<lparr>returned = Inl (llamaCatch this err), sent = [command], drained = [], logged = []\<rparr>
           | Inr bedrockResponse \<Rightarrow>
               (case AWSBedrockLlama2Stream ext bedrockResponse of
                  Inl err \<Rightarrow>
                    \<lparr>returned = Inl (llamaCatch this err), sent = [command], drained = [],
                     logged = []\<rparr>
                | Inr stream \<Rightarrow>
                    (case tee stream of
                       (debug, output) \<Rightarrow>
                         if DEBUG_BEDROCK_CHAT_COMPLETION ext = Some ''1'' then
                           \<lparr>returned = Inr (StreamingTextResponse output), sent = [command],
                            drained = [debug],
                            logged = (case debugStream ext debug of None \<Rightarrow> [] | Some e \<Rightarrow> [e])\<rparr>
                         else
                           \<lparr>returned = Inr (StreamingTextResponse output), sent = [command],
                            drained = [], logged = []\<rparr>))))"

definition chat ::
  "('m, 'r, 's, 'c) Externals \<Rightarrow> LobeBedrockAI \<Rightarrow> ChatStreamPayload \<Rightarrow>
   'c ChatCompetitionOptions option \<Rightarrow> ('m, 's) Outcome"
where
  "chat ext this payload options =
     (if startsWith (model payload) ''meta'' then invokeLlamaModel ext this payload
      else invokeClaudeModel ext this payload options)"

subsection \<open>Observations\<close>

text \<open>The names of the members of the body of a command.\<close>

definition body_fields :: "InvokeModelWithResponseStreamCommand \<Rightarrow> string set" where
  "body_fields command = fst ` set (body command)"

section \<open>Example inputs\<close>

text \<open>
  Concrete inputs for the properties below: an adapter constructed without a region, a
  vendor that answers, a vendor that throttles, a debug drain that fails, and payloads for
  both model families.
\<close>

definition example_params :: LobeBedrockAIParams where
  "example_params = \<lparr>accessKeyId = Some ''AKIAEXAMPLE'', accessKeySecret = Some ''secret'', region = None\<rparr>"

definition empty_region_params :: LobeBedrockAIParams where
  "empty_region_params = \<lparr>accessKeyId = Some ''a'', accessKeySecret = Some ''b'', region = Some []\<rparr>"

text \<open>
  A vendor client constructor that refuses a configuration with an empty region, as the
  vendor's SDK does, and accepts every other one.
\<close>

definition region_is_missing :: "'m Error" where
  "region_is_missing = \<lparr>err_name = ''Error'', err_message = ''Region is missing'', err_metadata = None\<rparr>"

definition sdk_newClient :: "BedrockRuntimeClient \<Rightarrow> 'm Error option" where
  "sdk_newClient config = (if client_region config = [] then Some region_is_missing else None)"

definition example_this :: LobeBedrockAI where
  "example_this =
     \<lparr>this_client =
        \<lparr>credentials = \<lparr>credentials_accessKeyId = ''AKIAEXAMPLE'', secretAccessKey = ''secret''\<rparr>,
         client_region = ''us-east-1''\<rparr>,
      this_region = ''us-east-1''\<rparr>"

definition throttled :: "nat Error" where
  "throttled =
     \<lparr>err_name = ''ThrottlingException'', err_message = ''Too many requests'', err_metadata = Some 429\<rparr>"

definition drain_failure :: "nat Error" where
  "drain_failure = \<lparr>err_name = ''TypeError'', err_message = ''terminated'', err_metadata = None\<rparr>"

definition example_externals :: "(nat, string, string, nat) Externals" where
  "example_externals =
     \<lparr>parseDataUri = parseDataUri_spec,
      experimental_buildLlama2Prompt = (\<lambda>ms. Inr ''<s>[INST] hi [/INST]''),
      client_send = (\<lambda>client command. Inr ''Hello''),
      AWSBedrockStream = (\<lambda>response cb. Inr response),
      AWSBedrockLlama2Stream = (\<lambda>response. Inr response),
      debugStream = (\<lambda>stream. Some drain_failure),
      DEBUG_BEDROCK_CHAT_COMPLETION = Some ''1''\<rparr>"

definition throttled_externals :: "(nat, string, string, nat) Externals" where
  "throttled_externals = example_externals\<lparr>client_send := (\<lambda>client command. Inl throttled)\<rparr>"

definition example_messages :: "OpenAIChatMessage list" where
  "example_messages =
     [\<lparr>content = StringContent ''Be brief.'', role = System\<rparr>,
      \<lparr>content = StringContent ''hi'', role = User\<rparr>,
      \<lparr>content = StringContent ''Be kind.'', role = System\<rparr>,
      \<lparr>content = PartsContent [TextPart ''look'', ImageUrlPart ''data:image/png;base64,AAAA''],
       role = Function\<rparr>]"

definition example_converted :: "MessageParam list" where
  "example_converted =
     [\<lparr>param_content = ParamString ''hi'', param_role = User\<rparr>,
      \<lparr>param_content = ParamBlocks
         [ContentBlock (TextPart ''look''),
          ImageBlock \<lparr>source = \<lparr>data = Some ''AAAA'', media_type = Some ''image/png'',
                                source_type = ''base64''\<rparr>,
                      block_type = ''image''\<rparr>],
       param_role = Assistant\<rparr>]"

definition claude_payload :: ChatStreamPayload where
  "claude_payload =
     \<lparr>max_tokens = None, messages = example_messages, model = ''anthropic.claude-v2'',
      temperature = None, top_p = None\<rparr>"

definition llama_payload :: ChatStreamPayload where
  "llama_payload = claude_payload\<lparr>model := ''meta.llama2-13b-chat-v1''\<rparr>"

definition zero_payload :: ChatStreamPayload where
  "zero_payload = claude_payload\<lparr>max_tokens := Some 0\<rparr>"

definition malformed_payload :: ChatStreamPayload where
  "malformed_payload =
     claude_payload\<lparr>messages :=
       [\<lparr>content = PartsContent [ImageUrlPart ''http://example.com/cat.png''], role = User\<rparr>]\<rparr>"

section \<open>Lemmas\<close>

lemma array_map_Inr_iff:
  "array_map f xs = Inr ys \<longleftrightarrow> length ys = length xs \<and> (\<forall>i<length xs. f (xs ! i) = Inr (ys ! i))"
proof (induction xs arbitrary: ys)
  case Nil
  then show ?case by auto
next
  case (Cons x xs)
  show ?case
  proof (cases ys)
    case Nil
    then show ?thesis by (auto split: sum.splits)
  next
    case (Cons y ys')
    have "(\<forall>i<Suc (length xs). f ((x # xs) ! i) = Inr ((y # ys') ! i)) \<longleftrightarrow>
          f x = Inr y \<and> (\<forall>i<length xs. f (xs ! i) = Inr (ys' ! i))"
      by (auto simp: nth_Cons split: nat.splits)
    with Cons Cons.IH [of ys'] show ?thesis
      by (auto split: sum.splits)
  qed
qed

lemma array_map_Inl_elem:
  "array_map f xs = Inl e \<Longrightarrow> \<exists>x\<in>set xs. f x = Inl e"
  by (induction xs) (auto split: sum.splits)

lemma array_map_fails:
  "x \<in> set xs \<Longrightarrow> f x = Inl e \<Longrightarrow> \<exists>e'. array_map f xs = Inl e'"
  by (induction xs) (auto split: sum.splits)

lemma array_map_total:
  "(\<forall>x\<in>set xs. \<exists>y. f x = Inr y) \<Longrightarrow> \<exists>ys. array_map f xs = Inr ys"
  by (induction xs) (auto split: sum.splits)

lemma claude_sent:
  "sent (invokeClaudeModel ext this payload options) =
     (case claudeCommand ext payload of Inl e \<Rightarrow> [] | Inr c \<Rightarrow> [c])"
  by (simp add: invokeClaudeModel_def tee_def split: sum.splits)

lemma llama_sent:
  "sent (invokeLlamaModel ext this payload) =
     (case llamaCommand ext payload of Inl e \<Rightarrow> [] | Inr c \<Rightarrow> [c])"
  by (simp add: invokeLlamaModel_def tee_def split: sum.splits)

lemma claude_sent_command:
  "command \<in> set (sent (invokeClaudeModel ext this payload options)) \<Longrightarrow>
   claudeCommand ext payload = Inr command"
  by (auto simp: claude_sent split: sum.splits)

lemma llama_sent_command:
  "command \<in> set (sent (invokeLlamaModel ext this payload)) \<Longrightarrow>
   llamaCommand ext payload = Inr command"
  by (auto simp: llama_sent split: sum.splits)

lemma claude_fields:
  "claudeCommand ext payload = Inr c \<Longrightarrow>
   {''anthropic_version'', ''max_tokens'', ''messages''} \<subseteq> body_fields c"
  by (auto simp: claudeCommand_def Let_def body_fields_def JSON_stringify_def split: sum.splits)

lemma llama_fields:
  "llamaCommand ext payload = Inr c \<Longrightarrow> body_fields c = {''max_gen_len'', ''prompt''}"
  by (auto simp: llamaCommand_def body_fields_def JSON_stringify_def split: sum.splits)

lemma find_first:
  "xs = pre @ m # post \<Longrightarrow> P m \<Longrightarrow> \<forall>x\<in>set pre. \<not> P x \<Longrightarrow> find P xs = Some m"
  by (induction pre arbitrary: xs) auto

lemma find_None_set: "find P xs = None \<longleftrightarrow> (\<forall>x\<in>set xs. \<not> P x)"
  by (induction xs) auto

lemma claude_system_present:
  "claudeCommand ext payload = Inr c \<Longrightarrow>
   ''system'' \<in> body_fields c \<longleftrightarrow> (\<exists>m\<in>set (messages payload). role m = System)"
proof -
  assume c: "claudeCommand ext payload = Inr c"
  show ?thesis
  proof (cases "find (\<lambda>m. role m = System) (messages payload)")
    case None
    with c have "''system'' \<notin> body_fields c"
      by (auto simp: claudeCommand_def Let_def body_fields_def JSON_stringify_def optional_def
          split: sum.splits option.splits)
    with None show ?thesis by (simp add: find_None_set)
  next
    case (Some m)
    with c have "''system'' \<in> body_fields c"
      by (auto simp: claudeCommand_def Let_def body_fields_def JSON_stringify_def optional_def
          split: sum.splits option.splits)
    moreover from Some have "\<not> (\<forall>x\<in>set (messages payload). \<not> role x = System)"
      by (simp flip: find_None_set)
    ultimately show ?thesis by blast
  qed
qed

lemma claude_system_value:
  "claudeCommand ext payload = Inr c \<Longrightarrow>
   find (\<lambda>m. role m = System) (messages payload) = Some m \<Longrightarrow>
   map_of (body c) ''system'' = Some (Content (content m))"
  by (auto simp: claudeCommand_def Let_def JSON_stringify_def optional_def
      split: sum.splits option.splits)

lemma claude_messages_value:
  "claudeCommand ext payload = Inr c \<Longrightarrow>
   buildAnthropicMessages (parseDataUri ext) (filter (\<lambda>m. role m \<noteq> System) (messages payload)) = Inr ms \<Longrightarrow>
   map_of (body c) ''messages'' = Some (Messages ms)"
  by (auto simp: claudeCommand_def Let_def JSON_stringify_def optional_def
      split: sum.splits option.splits)

lemma claude_max_tokens_value:
  "claudeCommand ext payload = Inr c \<Longrightarrow>
   map_of (body c) ''max_tokens'' = Some (Num (or_default (max_tokens payload) 4096))"
  by (auto simp: claudeCommand_def Let_def JSON_stringify_def optional_def
      split: sum.splits option.splits)

lemma llama_max_gen_len_value:
  "llamaCommand ext payload = Inr c \<Longrightarrow>
   map_of (body c) ''max_gen_len'' = Some (Num (or_default (max_tokens payload) 400))"
  by (auto simp: llamaCommand_def JSON_stringify_def split: sum.splits)

lemma claude_command_built:
  "buildAnthropicMessages (parseDataUri ext) (filter (\<lambda>m. role m \<noteq> System) (messages payload)) = Inr ms \<Longrightarrow>
   \<exists>c. claudeCommand ext payload = Inr c"
  by (simp add: claudeCommand_def)

lemma llama_command_built:
  "experimental_buildLlama2Prompt ext (messages payload) = Inr prompt \<Longrightarrow>
   \<exists>c. llamaCommand ext payload = Inr c"
  by (simp add: llamaCommand_def)

lemma claude_sent_built:
  "buildAnthropicMessages (parseDataUri ext) (filter (\<lambda>m. role m \<noteq> System) (messages payload)) = Inr ms \<Longrightarrow>
   \<exists>command. sent (invokeClaudeModel ext this payload options) = [command]"
  by (simp add: claude_sent claudeCommand_def)

lemma llama_sent_built:
  "experimental_buildLlama2Prompt ext (messages payload) = Inr prompt \<Longrightarrow>
   \<exists>command. sent (invokeLlamaModel ext this payload) = [command]"
  by (simp add: llama_sent llamaCommand_def)

lemma constructed_region:
  "snd (LobeBedrockAI_constructor newClient params) = Inr this \<Longrightarrow>
   this_region this = (case region params of None \<Rightarrow> ''us-east-1'' | Some r \<Rightarrow> r)"
  by (auto simp: LobeBedrockAI_constructor_def Let_def split: option.splits if_splits)

lemma claude_send_fails:
  "claudeCommand ext payload = Inr command \<Longrightarrow>
   client_send ext (this_client this) command = Inl err \<Longrightarrow>
   returned (invokeClaudeModel ext this payload options) = Inl (claudeCatch this err)"
  by (simp add: invokeClaudeModel_def)

lemma claude_stream_fails:
  "claudeCommand ext payload = Inr command \<Longrightarrow>
   client_send ext (this_client this) command = Inr response \<Longrightarrow>
   AWSBedrockStream ext response (case options of None \<Rightarrow> None | Some opts \<Rightarrow> callback opts) = Inl err \<Longrightarrow>
   returned (invokeClaudeModel ext this payload options) = Inl (claudeCatch this err)"
  by (simp add: invokeClaudeModel_def)

lemma llama_send_fails:
  "llamaCommand ext payload = Inr command \<Longrightarrow>
   client_send ext (this_client this) command = Inl err \<Longrightarrow>
   returned (invokeLlamaModel ext this payload) = Inl (llamaCatch this err)"
  by (simp add: invokeLlamaModel_def)

lemma llama_stream_fails:
  "llamaCommand ext payload = Inr command \<Longrightarrow>
   client_send ext (this_client this) command = Inr response \<Longrightarrow>
   AWSBedrockLlama2Stream ext response = Inl err \<Longrightarrow>
   returned (invokeLlamaModel ext this payload) = Inl (llamaCatch this err)"
  by (simp add: invokeLlamaModel_def)

lemma claudeCatch_carries:
  "\<exists>p. claudeCatch this err = AgentRuntimeError_chat p \<and>
     errorType p = BedrockBizError \<and> provider p = Bedrock \<and>
     error_type (error p) = err_name err \<and> error_message (error p) = err_message err \<and>
     error_body (error p) = err_metadata err \<and> payload_region p = this_region this"
  by (simp add: claudeCatch_def)

lemma llamaCatch_carries:
  "\<exists>p. llamaCatch this err = AgentRuntimeError_chat p \<and>
     errorType p = BedrockBizError \<and> provider p = Bedrock \<and>
     error_type (error p) = err_name err \<and> error_message (error p) = err_message err \<and>
     error_body (error p) = err_metadata err \<and> payload_region p = this_region this"
  by (simp add: llamaCatch_def)

lemma buildAnthropicMessage_role:
  "buildAnthropicMessage parse msg = Inr v \<Longrightarrow>
   param_role v = (if role msg = Function \<or> role msg = System then Assistant else role msg)"
  by (auto simp: buildAnthropicMessage_def split: sum.splits MessageContent.splits)

lemma buildAnthropicBlock_total:
  "\<forall>u. \<exists>r. parse u = Inr r \<Longrightarrow> \<exists>b. buildAnthropicBlock parse part = Inr b"
proof (cases part)
  case (TextPart t)
  then show ?thesis by simp
next
  case (ImageUrlPart u)
  assume "\<forall>u. \<exists>r. parse u = Inr r"
  then obtain r where "parse u = Inr r" by blast
  with ImageUrlPart show ?thesis by simp
qed

lemma buildAnthropicMessage_total:
  assumes "\<forall>u. \<exists>r. parse u = Inr r"
  shows "\<exists>v. buildAnthropicMessage parse msg = Inr v"
proof (cases "content msg")
  case (StringContent s)
  then show ?thesis by (simp add: buildAnthropicMessage_def)
next
  case (PartsContent cs)
  from assms have "\<forall>c\<in>set cs. \<exists>b. buildAnthropicBlock parse c = Inr b"
    by (simp add: buildAnthropicBlock_total)
  then obtain bs where "array_map (buildAnthropicBlock parse) cs = Inr bs"
    using array_map_total by blast
  with PartsContent show ?thesis by (simp add: buildAnthropicMessage_def)
qed

lemma claude_returned_debug:
  "returned (invokeClaudeModel (ext\<lparr>debugStream := d\<rparr>) this payload options) =
     returned (invokeClaudeModel ext this payload options) \<and>
   sent (invokeClaudeModel (ext\<lparr>debugStream := d\<rparr>) this payload options) =
     sent (invokeClaudeModel ext this payload options)"
  by (simp add: invokeClaudeModel_def claudeCommand_def tee_def Let_def split: sum.splits)

lemma llama_returned_debug:
  "returned (invokeLlamaModel (ext\<lparr>debugStream := d\<rparr>) this payload) =
     returned (invokeLlamaModel ext this payload) \<and>
   sent (invokeLlamaModel (ext\<lparr>debugStream := d\<rparr>) this payload) =
     sent (invokeLlamaModel ext this payload)"
  by (simp add: invokeLlamaModel_def llamaCommand_def tee_def split: sum.splits)

lemma claude_drained:
  "stream \<in> set (drained (invokeClaudeModel ext this payload options)) \<Longrightarrow>
   DEBUG_BEDROCK_CHAT_COMPLETION ext = Some ''1'' \<and>
   returned (invokeClaudeModel ext this payload options) = Inr (StreamingTextResponse stream) \<and>
   logged (invokeClaudeModel ext this payload options) =
     (case debugStream ext stream of None \<Rightarrow> [] | Some e \<Rightarrow> [e])"
  by (auto simp: invokeClaudeModel_def tee_def split: sum.splits if_splits)

lemma llama_drained:
  "stream \<in> set (drained (invokeLlamaModel ext this payload)) \<Longrightarrow>
   DEBUG_BEDROCK_CHAT_COMPLETION ext = Some ''1'' \<and>
   returned (invokeLlamaModel ext this payload) = Inr (StreamingTextResponse stream) \<and>
   logged (invokeLlamaModel ext this payload) =
     (case debugStream ext stream of None \<Rightarrow> [] | Some e \<Rightarrow> [e])"
  by (auto simp: invokeLlamaModel_def tee_def split: sum.splits if_splits)

lemma chat_drained:
  "stream \<in> set (drained (chat ext this payload options)) \<Longrightarrow>
   DEBUG_BEDROCK_CHAT_COMPLETION ext = Some ''1'' \<and>
   returned (chat ext this payload options) = Inr (StreamingTextResponse stream) \<and>
   logged (chat ext this payload options) =
     (case debugStream ext stream of None \<Rightarrow> [] | Some e \<Rightarrow> [e])"
  unfolding chat_def by (auto dest: claude_drained llama_drained split: if_splits)

lemma buildAnthropicMessages_Inl_parse:
  assumes "buildAnthropicMessages parse msgs = Inl e"
  shows "\<exists>u. parse u = Inl e"
proof -
  from assms have "\<exists>msg\<in>set msgs. buildAnthropicMessage parse msg = Inl e"
    unfolding buildAnthropicMessages_def by (rule array_map_Inl_elem)
  then obtain msg where "buildAnthropicMessage parse msg = Inl e" ..
  then obtain cs where "array_map (buildAnthropicBlock parse) cs = Inl e"
    by (auto simp: buildAnthropicMessage_def split: MessageContent.splits sum.splits)
  then have "\<exists>c\<in>set cs. buildAnthropicBlock parse c = Inl e"
    by (rule array_map_Inl_elem)
  then obtain c where c: "buildAnthropicBlock parse c = Inl e" ..
  show ?thesis
  proof (cases c)
    case (TextPart t)
    with c show ?thesis by simp
  next
    case (ImageUrlPart u)
    with c have "parse u = Inl e" by (simp split: sum.splits)
    then show ?thesis ..
  qed
qed

lemma buildAnthropicMessages_fails:
  assumes "msg \<in> set msgs" "content msg = PartsContent parts" "ImageUrlPart url \<in> set parts"
    "parse url = Inl e'"
  shows "\<exists>e. buildAnthropicMessages parse msgs = Inl e"
proof -
  from assms(4) have "buildAnthropicBlock parse (ImageUrlPart url) = Inl e'" by simp
  with assms(3) have "\<exists>e. array_map (buildAnthropicBlock parse) parts = Inl e"
    by (rule array_map_fails)
  then obtain e where "array_map (buildAnthropicBlock parse) parts = Inl e" ..
  with assms(2) have "buildAnthropicMessage parse msg = Inl e"
    by (simp add: buildAnthropicMessage_def)
  with assms(1) show ?thesis
    unfolding buildAnthropicMessages_def by (rule array_map_fails)
qed

lemma claude_conversion_throws:
  "buildAnthropicMessages (parseDataUri ext) (filter (\<lambda>m. role m \<noteq> System) (messages payload)) = Inl e \<Longrightarrow>
   invokeClaudeModel ext this payload options =
     \<lparr>returned = Inl (Uncaught e), sent = [], drained = [], logged = []\<rparr>"
  by (simp add: invokeClaudeModel_def claudeCommand_def)

lemma example_user_messages:
  "filter (\<lambda>m. role m \<noteq> System) example_messages =
     [\<lparr>content = StringContent ''hi'', role = User\<rparr>,
      \<lparr>content = PartsContent [TextPart ''look'', ImageUrlPart ''data:image/png;base64,AAAA''],
       role = Function\<rparr>]"
  by (simp add: example_messages_def)

lemma example_parse:
  "parseDataUri_spec ''data:image/png;base64,AAAA'' =
     Inr \<lparr>base64 = Some ''AAAA'', mimeType = Some ''image/png''\<rparr>"
  by (simp add: parseDataUri_spec_def startsWith_def)

lemma example_parse_malformed:
  "parseDataUri_spec ''http://example.com/cat.png'' = Inl malformedDataUri"
  by (simp add: parseDataUri_spec_def startsWith_def)

lemma example_conversion:
  "buildAnthropicMessages parseDataUri_spec (filter (\<lambda>m. role m \<noteq> System) example_messages) =
     Inr example_converted"
  by (simp add: example_user_messages buildAnthropicMessages_def buildAnthropicMessage_def
      example_parse example_converted_def)

lemma claude_model: "\<not> startsWith (model claude_payload) ''meta''"
  by (simp add: claude_payload_def startsWith_def)

lemma llama_model: "startsWith (model llama_payload) ''meta''"
  by (simp add: llama_payload_def claude_payload_def startsWith_def)

lemma example_claude_conversion:
  "buildAnthropicMessages (parseDataUri example_externals)
     (filter (\<lambda>m. role m \<noteq> System) (messages claude_payload)) = Inr example_converted"
  by (simp add: example_externals_def claude_payload_def example_conversion)

lemma example_llama_prompt:
  "experimental_buildLlama2Prompt example_externals (messages llama_payload) =
     Inr ''<s>[INST] hi [/INST]''"
  by (simp add: example_externals_def)

lemma example_constructed:
  "LobeBedrockAI_constructor (sdk_newClient :: BedrockRuntimeClient \<Rightarrow> nat Error option) example_params =
     ([this_client example_this], Inr example_this)"
  by (simp add: LobeBedrockAI_constructor_def example_params_def example_this_def Let_def
      sdk_newClient_def)

lemma example_claude_command:
  "claudeCommand throttled_externals claude_payload =
     Inr \<lparr>accept = ''application/json'',
          body = [(''anthropic_version'', Str ''bedrock-2023-05-31''), (''max_tokens'', Num 4096),
                  (''messages'', Messages example_converted),
                  (''system'', Content (StringContent ''Be brief.''))],
          contentType = ''application/json'', modelId = ''anthropic.claude-v2''\<rparr>"
  by (simp add: claudeCommand_def throttled_externals_def example_externals_def
      claude_payload_def example_conversion JSON_stringify_def optional_def or_default_def Let_def)
    (simp add: example_messages_def)

lemma example_chat_outcome:
  "\<exists>command.
     chat example_externals example_this claude_payload None =
       \<lparr>returned = Inr (StreamingTextResponse ''Hello''), sent = [command],
        drained = [''Hello''], logged = [drain_failure]\<rparr>"
proof -
  obtain command where "claudeCommand example_externals claude_payload = Inr command"
    using claude_command_built [OF example_claude_conversion] by blast
  then show ?thesis
    using claude_model
    by (simp add: chat_def invokeClaudeModel_def) (simp add: example_externals_def tee_def)
qed

section \<open>The claims\<close>

text \<open>
  C1. \<^verbatim>\<open>chat\<close> dispatches on a prefix test of the model identifier. When the model starts
  with \<^verbatim>\<open>meta\<close>, the body of every command sent to the vendor has the members
  \<^verbatim>\<open>prompt\<close> and \<^verbatim>\<open>max_gen_len\<close> and neither \<^verbatim>\<open>messages\<close> nor \<^verbatim>\<open>system\<close>; for every
  other model it has \<^verbatim>\<open>messages\<close>, \<^verbatim>\<open>anthropic_version\<close> and \<^verbatim>\<open>max_tokens\<close>. A command is
  sent whenever the prompt template (Llama) or the message conversion (Claude) returns.
\<close>

theorem chat_dispatch:
  "(startsWith (model payload) ''meta'' \<longrightarrow>
      (\<forall>command\<in>set (sent (chat ext this payload options)).
         ''prompt'' \<in> body_fields command \<and> ''max_gen_len'' \<in> body_fields command \<and>
         ''messages'' \<notin> body_fields command \<and> ''system'' \<notin> body_fields command) \<and>
      (\<forall>prompt. experimental_buildLlama2Prompt ext (messages payload) = Inr prompt \<longrightarrow>
         (\<exists>command. sent (chat ext this payload options) = [command]))) \<and>
   (\<not> startsWith (model payload) ''meta'' \<longrightarrow>
      (\<forall>command\<in>set (sent (chat ext this payload options)).
         ''messages'' \<in> body_fields command \<and> ''anthropic_version'' \<in> body_fields command \<and>
         ''max_tokens'' \<in> body_fields command) \<and>
      (\<forall>ms. buildAnthropicMessages (parseDataUri ext) (filter (\<lambda>m. role m \<noteq> System) (messages payload)) = Inr ms \<longrightarrow>
         (\<exists>command. sent (chat ext this payload options) = [command])))"
proof (cases "startsWith (model payload) ''meta''")
  case True
  have "\<forall>command\<in>set (sent (invokeLlamaModel ext this payload)).
         ''prompt'' \<in> body_fields command \<and> ''max_gen_len'' \<in> body_fields command \<and>
         ''messages'' \<notin> body_fields command \<and> ''system'' \<notin> body_fields command"
  proof
    fix command
    assume "command \<in> set (sent (invokeLlamaModel ext this payload))"
    then have "llamaCommand ext payload = Inr command" by (rule llama_sent_command)
    then have "body_fields command = {''max_gen_len'', ''prompt''}" by (rule llama_fields)
    then show "''prompt'' \<in> body_fields command \<and> ''max_gen_len'' \<in> body_fields command \<and>
         ''messages'' \<notin> body_fields command \<and> ''system'' \<notin> body_fields command"
      by simp
  qed
  moreover have "\<forall>prompt. experimental_buildLlama2Prompt ext (messages payload) = Inr prompt \<longrightarrow>
         (\<exists>command. sent (invokeLlamaModel ext this payload) = [command])"
    by (simp add: llama_sent llamaCommand_def)
  ultimately show ?thesis using True by (simp add: chat_def)
next
  case False
  have "\<forall>command\<in>set (sent (invokeClaudeModel ext this payload options)).
         ''messages'' \<in> body_fields command \<and> ''anthropic_version'' \<in> body_fields command \<and>
         ''max_tokens'' \<in> body_fields command"
  proof
    fix command
    assume "command \<in> set (sent (invokeClaudeModel ext this payload options))"
    then have "claudeCommand ext payload = Inr command" by (rule claude_sent_command)
    then have "{''anthropic_version'', ''max_tokens'', ''messages''} \<subseteq> body_fields command"
      by (rule claude_fields)
    then show "''messages'' \<in> body_fields command \<and> ''anthropic_version'' \<in> body_fields command \<and>
         ''max_tokens'' \<in> body_fields command"
      by simp
  qed
  moreover have "\<forall>ms. buildAnthropicMessages (parseDataUri ext) (filter (\<lambda>m. role m \<noteq> System) (messages payload)) = Inr ms \<longrightarrow>
         (\<exists>command. sent (invokeClaudeModel ext this payload options) = [command])"
    by (simp add: claude_sent claudeCommand_def)
  ultimately show ?thesis using False by (simp add: chat_def)
qed

theorem chat_dispatch_witness:
  "startsWith (model llama_payload) ''meta'' \<and>
   (\<exists>command. sent (chat example_externals example_this llama_payload None) = [command] \<and>
      ''prompt'' \<in> body_fields command \<and> ''max_gen_len'' \<in> body_fields command \<and>
      ''messages'' \<notin> body_fields command \<and> ''system'' \<notin> body_fields command) \<and>
   \<not> startsWith (model claude_payload) ''meta'' \<and>
   (\<exists>command. sent (chat example_externals example_this claude_payload None) = [command] \<and>
      ''messages'' \<in> body_fields command \<and> ''anthropic_version'' \<in> body_fields command \<and>
      ''max_tokens'' \<in> body_fields command)"
proof -
  note l = chat_dispatch [of llama_payload example_externals example_this None]
  note c = chat_dispatch [of claude_payload example_externals example_this None]
  from l llama_model example_llama_prompt
  obtain lc where lc: "sent (chat example_externals example_this llama_payload None) = [lc]"
    by blast
  with l llama_model have "''prompt'' \<in> body_fields lc \<and> ''max_gen_len'' \<in> body_fields lc \<and>
      ''messages'' \<notin> body_fields lc \<and> ''system'' \<notin> body_fields lc"
    by simp
  moreover from c claude_model example_claude_conversion
  obtain cc where cc: "sent (chat example_externals example_this claude_payload None) = [cc]"
    by blast
  with c claude_model have "''messages'' \<in> body_fields cc \<and> ''anthropic_version'' \<in> body_fields cc \<and>
      ''max_tokens'' \<in> body_fields cc"
    by simp
  ultimately show ?thesis using lc cc llama_model claude_model by blast
qed

text \<open>
  C2, as amended. When \<^verbatim>\<open>accessKeyId\<close> or \<^verbatim>\<open>accessKeySecret\<close> is absent or the empty string,
  the constructor throws the error of type \<^verbatim>\<open>InvalidBedrockCredentials\<close> and creates no vendor
  client, whatever the vendor's client constructor does. When both are non-empty, the
  client configuration holds the two credentials and the region supplied, \<^verbatim>\<open>us-east-1\<close> when
  none is supplied (an empty region is kept). Construction succeeds, with that one client
  and that region, exactly when the vendor's client constructor accepts the configuration;
  when it throws, its error leaves the adapter's constructor as it is and neither a client
  nor an instance exists.
\<close>

theorem constructor_credentials:
  "(accessKeyId params = None \<or> accessKeyId params = Some [] \<or>
    accessKeySecret params = None \<or> accessKeySecret params = Some [] \<longrightarrow>
      LobeBedrockAI_constructor newClient params =
        ([], Inl (AgentRuntimeError_createError InvalidBedrockCredentials))) \<and>
   (accessKeyId params = Some keyId \<and> keyId \<noteq> [] \<and>
    accessKeySecret params = Some keySecret \<and> keySecret \<noteq> [] \<and>
    config = \<lparr>credentials = \<lparr>credentials_accessKeyId = keyId, secretAccessKey = keySecret\<rparr>,
              client_region = (case region params of None \<Rightarrow> ''us-east-1'' | Some r \<Rightarrow> r)\<rparr> \<longrightarrow>
      (newClient config = None \<longrightarrow>
         LobeBedrockAI_constructor newClient params =
           ([config], Inr \<lparr>this_client = config, this_region = client_region config\<rparr>)) \<and>
      (newClient config = Some e \<longrightarrow>
         LobeBedrockAI_constructor newClient params = ([], Inl (Uncaught e))))"
  by (auto simp: LobeBedrockAI_constructor_def Let_def split: option.splits)

theorem constructor_credentials_witness:
  "accessKeySecret (example_params\<lparr>accessKeySecret := Some []\<rparr>) = Some [] \<and>
   LobeBedrockAI_constructor (sdk_newClient :: BedrockRuntimeClient \<Rightarrow> nat Error option)
       (example_params\<lparr>accessKeySecret := Some []\<rparr>) =
     ([], Inl (AgentRuntimeError_createError InvalidBedrockCredentials)) \<and>
   accessKeyId example_params = Some ''AKIAEXAMPLE'' \<and>
   accessKeySecret example_params = Some ''secret'' \<and>
   region example_params = None \<and>
   (sdk_newClient :: BedrockRuntimeClient \<Rightarrow> nat Error option) (this_client example_this) = None \<and>
   LobeBedrockAI_constructor (sdk_newClient :: BedrockRuntimeClient \<Rightarrow> nat Error option)
       example_params =
     ([this_client example_this], Inr example_this) \<and>
   this_region example_this = ''us-east-1'' \<and>
   accessKeyId empty_region_params = Some ''a'' \<and>
   accessKeySecret empty_region_params = Some ''b'' \<and>
   region empty_region_params = Some [] \<and>
   LobeBedrockAI_constructor (sdk_newClient :: BedrockRuntimeClient \<Rightarrow> nat Error option)
       empty_region_params =
     ([], Inl (Uncaught region_is_missing))"
proof -
  let ?new = "sdk_newClient :: BedrockRuntimeClient \<Rightarrow> nat Error option"
  let ?config = "\<lparr>credentials = \<lparr>credentials_accessKeyId = ''a'', secretAccessKey = ''b''\<rparr>,
                  client_region = []\<rparr>"
  have a: "accessKeySecret (example_params\<lparr>accessKeySecret := Some []\<rparr>) = Some []" by simp
  have b: "accessKeyId example_params = Some ''AKIAEXAMPLE'' \<and>
    accessKeySecret example_params = Some ''secret'' \<and> region example_params = None"
    by (simp add: example_params_def)
  have c: "this_client example_this =
      \<lparr>credentials = \<lparr>credentials_accessKeyId = ''AKIAEXAMPLE'', secretAccessKey = ''secret''\<rparr>,
       client_region = (case region example_params of None \<Rightarrow> ''us-east-1'' | Some r \<Rightarrow> r)\<rparr>"
    by (simp add: example_this_def example_params_def)
  have n: "?new (this_client example_this) = None"
    by (simp add: sdk_newClient_def example_this_def)
  have r: "this_region example_this = ''us-east-1''"
    by (simp add: example_this_def)
  have d: "accessKeyId empty_region_params = Some ''a'' \<and>
    accessKeySecret empty_region_params = Some ''b'' \<and> region empty_region_params = Some []"
    by (simp add: empty_region_params_def)
  have d': "?config =
      \<lparr>credentials = \<lparr>credentials_accessKeyId = ''a'', secretAccessKey = ''b''\<rparr>,
       client_region = (case region empty_region_params of None \<Rightarrow> ''us-east-1'' | Some r \<Rightarrow> r)\<rparr>"
    by (simp add: empty_region_params_def)
  have m: "?new ?config = Some region_is_missing"
    by (simp add: sdk_newClient_def)
  note t1 = constructor_credentials [where params = "example_params\<lparr>accessKeySecret := Some []\<rparr>"
      and newClient = ?new]
  note t2 = constructor_credentials [where params = example_params and keyId = "''AKIAEXAMPLE''"
      and keySecret = "''secret''" and config = "this_client example_this" and newClient = ?new]
  note t3 = constructor_credentials [where params = empty_region_params and keyId = "''a''"
      and keySecret = "''b''" and config = ?config and newClient = ?new and e = region_is_missing]
  from t1 a have e1: "LobeBedrockAI_constructor ?new (example_params\<lparr>accessKeySecret := Some []\<rparr>) =
     ([], Inl (AgentRuntimeError_createError InvalidBedrockCredentials))"
    by blast
  have k2: "''AKIAEXAMPLE'' \<noteq> []" "''secret'' \<noteq> []" "''a'' \<noteq> []" "''b'' \<noteq> []" by simp_all
  from t2 b c n k2 have "LobeBedrockAI_constructor ?new example_params =
     ([this_client example_this],
      Inr \<lparr>this_client = this_client example_this,
           this_region = client_region (this_client example_this)\<rparr>)"
    by blast
  then have e2: "LobeBedrockAI_constructor ?new example_params =
     ([this_client example_this], Inr example_this)"
    by (simp add: example_this_def)
  from t3 d d' m k2 have e3: "LobeBedrockAI_constructor ?new empty_region_params =
     ([], Inl (Uncaught region_is_missing))"
    by blast
  from a b n r d e1 e2 e3 show ?thesis by blast
qed

text \<open>
  The claim as it was stated, that construction succeeds whenever both credentials are
  non-empty, fails for an empty region: \<^verbatim>\<open>??\<close> keeps it, the vendor's client constructor
  refuses it, and the adapter's constructor throws that error with no client created.
\<close>

theorem constructor_empty_region_counterexample:
  "accessKeyId empty_region_params = Some ''a'' \<and>
   accessKeySecret empty_region_params = Some ''b'' \<and>
   LobeBedrockAI_constructor (sdk_newClient :: BedrockRuntimeClient \<Rightarrow> nat Error option)
       empty_region_params =
     ([], Inl (Uncaught \<lparr>err_name = ''Error'', err_message = ''Region is missing'',
                         err_metadata = None\<rparr>))"
  by (simp add: LobeBedrockAI_constructor_def empty_region_params_def sdk_newClient_def
      region_is_missing_def Let_def)

text \<open>
  C3. On either path, when the command has been built and the vendor invocation (the send,
  or the stream parser applied to its response) throws \<open>err\<close>, \<^verbatim>\<open>chat\<close> rejects with
  \<^verbatim>\<open>AgentRuntimeError.chat\<close> of a payload of type \<^verbatim>\<open>BedrockBizError\<close> that carries the name
  of \<open>err\<close> as its type, its message, its metadata, the provider and the region the
  adapter was constructed with.
\<close>

theorem invocation_failure_wrapped:
  assumes built: "snd (LobeBedrockAI_constructor newClient params) = Inr this"
    and command: "(if startsWith (model payload) ''meta'' then llamaCommand ext payload
                   else claudeCommand ext payload) = Inr command"
    and failure: "client_send ext (this_client this) command = Inl err \<or>
       (\<exists>response. client_send ext (this_client this) command = Inr response \<and>
          (if startsWith (model payload) ''meta'' then AWSBedrockLlama2Stream ext response
           else AWSBedrockStream ext response
                  (case options of None \<Rightarrow> None | Some opts \<Rightarrow> callback opts)) = Inl err)"
  shows "\<exists>p. returned (chat ext this payload options) = Inl (AgentRuntimeError_chat p) \<and>
     errorType p = BedrockBizError \<and> provider p = Bedrock \<and>
     error_type (error p) = err_name err \<and> error_message (error p) = err_message err \<and>
     error_body (error p) = err_metadata (err :: 'm Error) \<and>
     payload_region p = (case region params of None \<Rightarrow> ''us-east-1'' | Some r \<Rightarrow> r)"
proof -
  have r: "this_region this = (case region params of None \<Rightarrow> ''us-east-1'' | Some r \<Rightarrow> r)"
    using built by (rule constructed_region)
  show ?thesis
  proof (cases "startsWith (model payload) ''meta''")
    case True
    with command failure
    have "returned (invokeLlamaModel ext this payload) = Inl (llamaCatch this err)"
      by (auto intro: llama_send_fails llama_stream_fails)
    with True have "returned (chat ext this payload options) = Inl (llamaCatch this err)"
      by (simp add: chat_def)
    with llamaCatch_carries [of this err] show ?thesis
      unfolding r by metis
  next
    case False
    with command failure
    have "returned (invokeClaudeModel ext this payload options) = Inl (claudeCatch this err)"
      by (auto intro: claude_send_fails claude_stream_fails)
    with False have "returned (chat ext this payload options) = Inl (claudeCatch this err)"
      by (simp add: chat_def)
    with claudeCatch_carries [of this err] show ?thesis
      unfolding r by metis
  qed
qed

theorem invocation_failure_wrapped_witness:
  "snd (LobeBedrockAI_constructor (sdk_newClient :: BedrockRuntimeClient \<Rightarrow> nat Error option)
          example_params) = Inr example_this \<and>
   (\<exists>command. claudeCommand throttled_externals claude_payload = Inr command \<and>
      client_send throttled_externals (this_client example_this) command = Inl throttled) \<and>
   (\<exists>p. returned (chat throttled_externals example_this claude_payload None) =
           Inl (AgentRuntimeError_chat p) \<and>
        errorType p = BedrockBizError \<and> provider p = Bedrock \<and>
        error_type (error p) = ''ThrottlingException'' \<and>
        error_message (error p) = ''Too many requests'' \<and> error_body (error p) = Some 429 \<and>
        payload_region p = ''us-east-1'')"
proof -
  have built: "snd (LobeBedrockAI_constructor (sdk_newClient :: BedrockRuntimeClient \<Rightarrow> nat Error option)
          example_params) = Inr example_this"
    by (simp add: example_constructed)
  obtain command where command: "claudeCommand throttled_externals claude_payload = Inr command"
    using example_claude_command by blast
  have send: "client_send throttled_externals (this_client example_this) command = Inl throttled"
    by (simp add: throttled_externals_def)
  from command claude_model
  have c: "(if startsWith (model claude_payload) ''meta'' then llamaCommand throttled_externals claude_payload
            else claudeCommand throttled_externals claude_payload) = Inr command"
    by simp
  from send have f: "client_send throttled_externals (this_client example_this) command = Inl throttled \<or>
       (\<exists>response. client_send throttled_externals (this_client example_this) command = Inr response \<and>
          (if startsWith (model claude_payload) ''meta'' then AWSBedrockLlama2Stream throttled_externals response
           else AWSBedrockStream throttled_externals response
                  (case None of None \<Rightarrow> None | Some opts \<Rightarrow> callback opts)) = Inl throttled)"
    by simp
  have r: "region example_params = None" by (simp add: example_params_def)
  from invocation_failure_wrapped [OF built c f]
  have "\<exists>p. returned (chat throttled_externals example_this claude_payload None) =
           Inl (AgentRuntimeError_chat p) \<and>
        errorType p = BedrockBizError \<and> provider p = Bedrock \<and>
        error_type (error p) = ''ThrottlingException'' \<and>
        error_message (error p) = ''Too many requests'' \<and> error_body (error p) = Some 429 \<and>
        payload_region p = ''us-east-1''"
    by (simp add: r throttled_def)
  with built command send show ?thesis by blast
qed

text \<open>
  C4. On the Claude path, when the conversion of the messages returns, the body sent has a
  member \<^verbatim>\<open>system\<close> if and only if some input message has the role \<^verbatim>\<open>system\<close>; its value
  is the content of the first such message; and the member \<^verbatim>\<open>messages\<close> is the conversion
  of the input with every \<^verbatim>\<open>system\<close> message removed.
\<close>

theorem claude_system_field:
  assumes "\<not> startsWith (model payload) ''meta''"
    and "buildAnthropicMessages (parseDataUri ext)
           (filter (\<lambda>m. role m \<noteq> System) (messages payload)) = Inr ms"
  shows "\<exists>command. sent (chat ext this payload options) = [command] \<and>
     (''system'' \<in> body_fields command \<longleftrightarrow> (\<exists>m\<in>set (messages payload). role m = System)) \<and>
     (\<forall>pre m post. messages payload = pre @ m # post \<and> role m = System \<and>
         (\<forall>x\<in>set pre. role x \<noteq> System) \<longrightarrow>
         map_of (body command) ''system'' = Some (Content (content m))) \<and>
     map_of (body command) ''messages'' = Some (Messages ms)"
proof -
  from assms(2) obtain c where c: "claudeCommand ext payload = Inr c"
    using claude_command_built by blast
  then have s: "sent (chat ext this payload options) = [c]"
    using assms(1) by (simp add: chat_def claude_sent)
  have v: "map_of (body c) ''system'' = Some (Content (content m))"
    if "messages payload = pre @ m # post" "role m = System" "\<forall>x\<in>set pre. role x \<noteq> System"
    for pre m post
  proof -
    from that have "find (\<lambda>m. role m = System) (messages payload) = Some m"
      by (intro find_first [where pre = pre and post = post]) auto
    with c show ?thesis by (rule claude_system_value)
  qed
  from s claude_system_present [OF c] v claude_messages_value [OF c assms(2)]
  show ?thesis by blast
qed

theorem claude_system_field_witness:
  "\<not> startsWith (model claude_payload) ''meta'' \<and>
   buildAnthropicMessages (parseDataUri example_externals)
     (filter (\<lambda>m. role m \<noteq> System) (messages claude_payload)) = Inr example_converted \<and>
   (\<exists>command. sent (chat example_externals example_this claude_payload None) = [command] \<and>
      ''system'' \<in> body_fields command \<and>
      map_of (body command) ''system'' = Some (Content (StringContent ''Be brief.'')) \<and>
      map_of (body command) ''messages'' = Some (Messages example_converted))"
proof -
  note t = claude_system_field [OF claude_model example_claude_conversion, of example_this None]
  then obtain command where
    s: "sent (chat example_externals example_this claude_payload None) = [command]" and
    p: "''system'' \<in> body_fields command \<longleftrightarrow> (\<exists>m\<in>set (messages claude_payload). role m = System)" and
    v: "\<And>pre m post. messages claude_payload = pre @ m # post \<and> role m = System \<and>
         (\<forall>x\<in>set pre. role x \<noteq> System) \<Longrightarrow>
         map_of (body command) ''system'' = Some (Content (content m))" and
    m: "map_of (body command) ''messages'' = Some (Messages example_converted)"
    by blast
  from p have "''system'' \<in> body_fields command"
    by (simp add: claude_payload_def example_messages_def)
  moreover have "map_of (body command) ''system'' = Some (Content (StringContent ''Be brief.''))"
    using v [of "[]" "\<lparr>content = StringContent ''Be brief.'', role = System\<rparr>"
        "tl example_messages"]
    by (simp add: claude_payload_def example_messages_def)
  ultimately show ?thesis
    using s m claude_model example_claude_conversion by blast
qed

text \<open>
  C5. \<^verbatim>\<open>buildAnthropicMessage\<close> maps the roles \<^verbatim>\<open>system\<close> and \<^verbatim>\<open>function\<close> to
  \<^verbatim>\<open>assistant\<close> and leaves \<^verbatim>\<open>user\<close> and \<^verbatim>\<open>assistant\<close> as they are. \<^verbatim>\<open>buildAnthropicMessages\<close>
  returns \<open>vs\<close> exactly when \<open>vs\<close> is as long as the input and its i-th element is the
  conversion of the i-th input message; it returns whenever the decoder never throws.
\<close>

theorem convert_roles_and_order:
  "(buildAnthropicMessage parse msg = Inr v \<longrightarrow>
      (role msg = System \<or> role msg = Function \<longrightarrow> param_role v = Assistant) \<and>
      (role msg = User \<or> role msg = Assistant \<longrightarrow> param_role v = role msg)) \<and>
   (buildAnthropicMessages parse msgs = Inr vs \<longleftrightarrow>
      length vs = length msgs \<and>
      (\<forall>i<length msgs. buildAnthropicMessage parse (msgs ! i) = Inr (vs ! i))) \<and>
   ((\<forall>u. \<exists>r. parse u = Inr r) \<longrightarrow> (\<exists>vs. buildAnthropicMessages parse msgs = Inr vs))"
proof (intro conjI)
  show "buildAnthropicMessage parse msg = Inr v \<longrightarrow>
      (role msg = System \<or> role msg = Function \<longrightarrow> param_role v = Assistant) \<and>
      (role msg = User \<or> role msg = Assistant \<longrightarrow> param_role v = role msg)"
    by (auto dest: buildAnthropicMessage_role)
  show "buildAnthropicMessages parse msgs = Inr vs \<longleftrightarrow>
      length vs = length msgs \<and>
      (\<forall>i<length msgs. buildAnthropicMessage parse (msgs ! i) = Inr (vs ! i))"
    unfolding buildAnthropicMessages_def by (rule array_map_Inr_iff)
  show "(\<forall>u. \<exists>r. parse u = Inr r) \<longrightarrow> (\<exists>vs. buildAnthropicMessages parse msgs = Inr vs)"
    unfolding buildAnthropicMessages_def
    by (blast intro: array_map_total buildAnthropicMessage_total)
qed

theorem convert_roles_and_order_witness:
  "buildAnthropicMessage parseDataUri_spec (example_messages ! 3) = Inr (example_converted ! 1) \<and>
   role (example_messages ! 3) = Function \<and> param_role (example_converted ! 1) = Assistant \<and>
   buildAnthropicMessage parseDataUri_spec (example_messages ! 1) = Inr (example_converted ! 0) \<and>
   role (example_messages ! 1) = User \<and> param_role (example_converted ! 0) = User \<and>
   buildAnthropicMessages parseDataUri_spec [example_messages ! 1, example_messages ! 3] =
     Inr example_converted \<and>
   length example_converted = length [example_messages ! 1, example_messages ! 3]"
proof -
  have a: "buildAnthropicMessage parseDataUri_spec (example_messages ! 3) = Inr (example_converted ! 1)"
    by (simp add: example_messages_def example_converted_def buildAnthropicMessage_def example_parse)
  have b: "buildAnthropicMessage parseDataUri_spec (example_messages ! 1) = Inr (example_converted ! 0)"
    by (simp add: example_messages_def example_converted_def buildAnthropicMessage_def)
  have f: "role (example_messages ! 3) = Function" and u: "role (example_messages ! 1) = User"
    by (simp_all add: example_messages_def)
  have l: "length example_converted = length [example_messages ! 1, example_messages ! 3]"
    by (simp add: example_converted_def)
  have i: "\<forall>i<length [example_messages ! 1, example_messages ! 3].
      buildAnthropicMessage parseDataUri_spec ([example_messages ! 1, example_messages ! 3] ! i) =
        Inr (example_converted ! i)"
  proof (intro allI impI)
    fix i
    assume "i < length [example_messages ! 1, example_messages ! 3]"
    then have "i = 0 \<or> i = 1" by auto
    then show "buildAnthropicMessage parseDataUri_spec
        ([example_messages ! 1, example_messages ! 3] ! i) = Inr (example_converted ! i)"
      using a b by auto
  qed
  note t3 = convert_roles_and_order [of parseDataUri_spec "example_messages ! 3"
      "example_converted ! 1" "[example_messages ! 1, example_messages ! 3]" example_converted]
  note t1 = convert_roles_and_order [of parseDataUri_spec "example_messages ! 1"
      "example_converted ! 0" "[example_messages ! 1, example_messages ! 3]" example_converted]
  from t3 a f have "param_role (example_converted ! 1) = Assistant" by blast
  moreover from t1 b have "role (example_messages ! 1) = User \<or> role (example_messages ! 1) = Assistant \<longrightarrow>
      param_role (example_converted ! 0) = role (example_messages ! 1)"
    by blast
  with u have "param_role (example_converted ! 0) = User" by simp
  moreover from t3 l i have
    "buildAnthropicMessages parseDataUri_spec [example_messages ! 1, example_messages ! 3] =
       Inr example_converted"
    by blast
  ultimately show ?thesis using a b f u l by blast
qed

text \<open>
  C6. \<^verbatim>\<open>buildAnthropicBlock\<close> returns a text part as it is; for an image part whose URL the
  decoder decomposes into the MIME type \<open>m\<close> and the base64 payload \<open>d\<close>, it returns the
  block \<^verbatim>\<open>{type: 'image', source: {type: 'base64', media_type: m, data: d}}\<close>.
\<close>

theorem convert_content_part:
  "buildAnthropicBlock parse (TextPart t) = Inr (ContentBlock (TextPart t)) \<and>
   (parse url = Inr \<lparr>base64 = Some d, mimeType = Some m\<rparr> \<longrightarrow>
      buildAnthropicBlock parse (ImageUrlPart url) =
        Inr (ImageBlock \<lparr>source = \<lparr>data = Some d, media_type = Some m, source_type = ''base64''\<rparr>,
                         block_type = ''image''\<rparr>))"
  by simp

theorem convert_content_part_witness:
  "parseDataUri_spec ''data:image/png;base64,AAAA'' =
     (Inr \<lparr>base64 = Some ''AAAA'', mimeType = Some ''image/png''\<rparr> :: nat Error + UriParserResult) \<and>
   buildAnthropicBlock (parseDataUri_spec :: string \<Rightarrow> nat Error + UriParserResult)
       (ImageUrlPart ''data:image/png;base64,AAAA'') =
     Inr (ImageBlock \<lparr>source = \<lparr>data = Some ''AAAA'', media_type = Some ''image/png'',
                                  source_type = ''base64''\<rparr>,
                      block_type = ''image''\<rparr>) \<and>
   buildAnthropicBlock (parseDataUri_spec :: string \<Rightarrow> nat Error + UriParserResult)
       (TextPart ''look'') = Inr (ContentBlock (TextPart ''look''))"
  using convert_content_part [of "parseDataUri_spec :: string \<Rightarrow> nat Error + UriParserResult"
      "''look''" "''data:image/png;base64,AAAA''" "''AAAA''" "''image/png''"]
    example_parse [where 'a = nat]
  by blast

text \<open>
  C7. When \<^verbatim>\<open>max_tokens\<close> is omitted, every body built on the Claude path has
  \<^verbatim>\<open>max_tokens\<close> = 4096 and every body built on the Llama path has \<^verbatim>\<open>max_gen_len\<close> = 400;
  a body is built and sent whenever the conversion (the prompt template) returns.
\<close>

theorem max_tokens_omitted:
  assumes "max_tokens payload = None"
  shows "(\<forall>command\<in>set (sent (invokeClaudeModel ext this payload options)).
            map_of (body command) ''max_tokens'' = Some (Num 4096)) \<and>
         (\<forall>command\<in>set (sent (invokeLlamaModel ext this payload)).
            map_of (body command) ''max_gen_len'' = Some (Num 400)) \<and>
         (buildAnthropicMessages (parseDataUri ext)
            (filter (\<lambda>m. role m \<noteq> System) (messages payload)) = Inr ms \<longrightarrow>
          (\<exists>command. sent (invokeClaudeModel ext this payload options) = [command])) \<and>
         (experimental_buildLlama2Prompt ext (messages payload) = Inr prompt \<longrightarrow>
          (\<exists>command. sent (invokeLlamaModel ext this payload) = [command]))"
proof (intro conjI ballI impI)
  fix command
  assume "command \<in> set (sent (invokeClaudeModel ext this payload options))"
  then have "claudeCommand ext payload = Inr command" by (rule claude_sent_command)
  then show "map_of (body command) ''max_tokens'' = Some (Num 4096)"
    using assms by (simp add: claude_max_tokens_value or_default_def)
next
  fix command
  assume "command \<in> set (sent (invokeLlamaModel ext this payload))"
  then have "llamaCommand ext payload = Inr command" by (rule llama_sent_command)
  then show "map_of (body command) ''max_gen_len'' = Some (Num 400)"
    using assms by (simp add: llama_max_gen_len_value or_default_def)
next
  assume "buildAnthropicMessages (parseDataUri ext)
            (filter (\<lambda>m. role m \<noteq> System) (messages payload)) = Inr ms"
  then show "\<exists>command. sent (invokeClaudeModel ext this payload options) = [command]"
    by (rule claude_sent_built)
next
  assume "experimental_buildLlama2Prompt ext (messages payload) = Inr prompt"
  then show "\<exists>command. sent (invokeLlamaModel ext this payload) = [command]"
    by (rule llama_sent_built)
qed

theorem max_tokens_omitted_witness:
  "max_tokens claude_payload = None \<and>
   (\<exists>command. sent (invokeClaudeModel example_externals example_this claude_payload None) = [command] \<and>
      map_of (body command) ''max_tokens'' = Some (Num 4096)) \<and>
   (\<exists>command. sent (invokeLlamaModel example_externals example_this claude_payload) = [command] \<and>
      map_of (body command) ''max_gen_len'' = Some (Num 400))"
proof -
  have n: "max_tokens claude_payload = None" by (simp add: claude_payload_def)
  have p: "experimental_buildLlama2Prompt example_externals (messages claude_payload) =
     Inr ''<s>[INST] hi [/INST]''"
    by (simp add: example_externals_def)
  note t = max_tokens_omitted [OF n, of example_externals example_this None example_converted
      "''<s>[INST] hi [/INST]''"]
  from t example_claude_conversion obtain cc where
    cc: "sent (invokeClaudeModel example_externals example_this claude_payload None) = [cc]"
    by blast
  from t p obtain lc where
    lc: "sent (invokeLlamaModel example_externals example_this claude_payload) = [lc]"
    by blast
  from t cc have "map_of (body cc) ''max_tokens'' = Some (Num 4096)" by simp
  moreover from t lc have "map_of (body lc) ''max_gen_len'' = Some (Num 400)" by simp
  ultimately show ?thesis using n cc lc by blast
qed

text \<open>
  C8. What \<^verbatim>\<open>chat\<close> returns and sends does not depend on how the drain of the debug branch
  settles. A stream is drained only when \<^verbatim>\<open>DEBUG_BEDROCK_CHAT_COMPLETION\<close> is \<^verbatim>\<open>'1'\<close>; when
  the drain is rejected with \<open>e\<close>, \<open>e\<close> is written to the console and \<^verbatim>\<open>chat\<close> still
  resolves with the response made from the other branch.
\<close>

theorem debug_drain_isolated:
  "returned (chat (ext\<lparr>debugStream := d\<rparr>) this payload options) =
     returned (chat ext this payload options) \<and>
   sent (chat (ext\<lparr>debugStream := d\<rparr>) this payload options) =
     sent (chat ext this payload options) \<and>
   (drained (chat ext this payload options) \<noteq> [] \<longrightarrow>
      DEBUG_BEDROCK_CHAT_COMPLETION ext = Some ''1'') \<and>
   (\<forall>stream e. stream \<in> set (drained (chat ext this payload options)) \<and>
        debugStream ext stream = Some e \<longrightarrow>
      logged (chat ext this payload options) = [e] \<and>
      returned (chat ext this payload options) = Inr (StreamingTextResponse stream))"
proof (intro conjI)
  show "returned (chat (ext\<lparr>debugStream := d\<rparr>) this payload options) =
     returned (chat ext this payload options)"
    by (simp add: chat_def claude_returned_debug llama_returned_debug)
  show "sent (chat (ext\<lparr>debugStream := d\<rparr>) this payload options) =
     sent (chat ext this payload options)"
    by (simp add: chat_def claude_returned_debug llama_returned_debug)
  show "drained (chat ext this payload options) \<noteq> [] \<longrightarrow>
      DEBUG_BEDROCK_CHAT_COMPLETION ext = Some ''1''"
  proof
    assume "drained (chat ext this payload options) \<noteq> []"
    then obtain stream where "stream \<in> set (drained (chat ext this payload options))"
      by (cases "drained (chat ext this payload options)") auto
    then show "DEBUG_BEDROCK_CHAT_COMPLETION ext = Some ''1''"
      by (simp add: chat_drained)
  qed
  show "\<forall>stream e. stream \<in> set (drained (chat ext this payload options)) \<and>
        debugStream ext stream = Some e \<longrightarrow>
      logged (chat ext this payload options) = [e] \<and>
      returned (chat ext this payload options) = Inr (StreamingTextResponse stream)"
    by (auto dest: chat_drained)
qed

theorem debug_drain_isolated_witness:
  "DEBUG_BEDROCK_CHAT_COMPLETION example_externals = Some ''1'' \<and>
   drained (chat example_externals example_this claude_payload None) = [''Hello''] \<and>
   debugStream example_externals ''Hello'' = Some drain_failure \<and>
   logged (chat example_externals example_this claude_payload None) = [drain_failure] \<and>
   returned (chat example_externals example_this claude_payload None) =
     Inr (StreamingTextResponse ''Hello'') \<and>
   returned (chat (example_externals\<lparr>debugStream := \<lambda>stream. None\<rparr>) example_this claude_payload None) =
     Inr (StreamingTextResponse ''Hello'')"
proof -
  note t = debug_drain_isolated [where ext = example_externals and d = "\<lambda>stream. None"
      and this = example_this and payload = claude_payload and options = None]
  obtain command where o: "chat example_externals example_this claude_payload None =
       \<lparr>returned = Inr (StreamingTextResponse ''Hello''), sent = [command],
        drained = [''Hello''], logged = [drain_failure]\<rparr>"
    using example_chat_outcome by blast
  have d: "drained (chat example_externals example_this claude_payload None) = [''Hello'']"
    by (simp add: o)
  have f: "debugStream example_externals ''Hello'' = Some drain_failure"
    by (simp add: example_externals_def)
  from t d have e: "DEBUG_BEDROCK_CHAT_COMPLETION example_externals = Some ''1''" by simp
  from t d f have l: "logged (chat example_externals example_this claude_payload None) = [drain_failure] \<and>
    returned (chat example_externals example_this claude_payload None) =
      Inr (StreamingTextResponse ''Hello'')"
    by simp
  with t have "returned (chat (example_externals\<lparr>debugStream := \<lambda>stream. None\<rparr>) example_this
      claude_payload None) = Inr (StreamingTextResponse ''Hello'')"
    by simp
  with d f e l show ?thesis by blast
qed

text \<open>
  C9. When \<^verbatim>\<open>max_tokens\<close> is supplied and is 0, the defaults apply as if it were omitted:
  \<^verbatim>\<open>max_tokens\<close> = 4096 on the Claude path and \<^verbatim>\<open>max_gen_len\<close> = 400 on the Llama path.
\<close>

theorem max_tokens_zero:
  assumes "max_tokens payload = Some 0"
  shows "(\<forall>command\<in>set (sent (invokeClaudeModel ext this payload options)).
            map_of (body command) ''max_tokens'' = Some (Num 4096)) \<and>
         (\<forall>command\<in>set (sent (invokeLlamaModel ext this payload)).
            map_of (body command) ''max_gen_len'' = Some (Num 400)) \<and>
         (buildAnthropicMessages (parseDataUri ext)
            (filter (\<lambda>m. role m \<noteq> System) (messages payload)) = Inr ms \<longrightarrow>
          (\<exists>command. sent (invokeClaudeModel ext this payload options) = [command])) \<and>
         (experimental_buildLlama2Prompt ext (messages payload) = Inr prompt \<longrightarrow>
          (\<exists>command. sent (invokeLlamaModel ext this payload) = [command]))"
proof (intro conjI ballI impI)
  fix command
  assume "command \<in> set (sent (invokeClaudeModel ext this payload options))"
  then have "claudeCommand ext payload = Inr command" by (rule claude_sent_command)
  then show "map_of (body command) ''max_tokens'' = Some (Num 4096)"
    using assms by (simp add: claude_max_tokens_value or_default_def)
next
  fix command
  assume "command \<in> set (sent (invokeLlamaModel ext this payload))"
  then have "llamaCommand ext payload = Inr command" by (rule llama_sent_command)
  then show "map_of (body command) ''max_gen_len'' = Some (Num 400)"
    using assms by (simp add: llama_max_gen_len_value or_default_def)
next
  assume "buildAnthropicMessages (parseDataUri ext)
            (filter (\<lambda>m. role m \<noteq> System) (messages payload)) = Inr ms"
  then show "\<exists>command. sent (invokeClaudeModel ext this payload options) = [command]"
    by (rule claude_sent_built)
next
  assume "experimental_buildLlama2Prompt ext (messages payload) = Inr prompt"
  then show "\<exists>command. sent (invokeLlamaModel ext this payload) = [command]"
    by (rule llama_sent_built)
qed

theorem max_tokens_zero_witness:
  "max_tokens zero_payload = Some 0 \<and>
   (\<exists>command. sent (invokeClaudeModel example_externals example_this zero_payload None) = [command] \<and>
      map_of (body command) ''max_tokens'' = Some (Num 4096)) \<and>
   (\<exists>command. sent (invokeLlamaModel example_externals example_this zero_payload) = [command] \<and>
      map_of (body command) ''max_gen_len'' = Some (Num 400))"
proof -
  have n: "max_tokens zero_payload = Some 0" by (simp add: zero_payload_def)
  have p: "experimental_buildLlama2Prompt example_externals (messages zero_payload) =
     Inr ''<s>[INST] hi [/INST]''"
    by (simp add: example_externals_def)
  have c: "buildAnthropicMessages (parseDataUri example_externals)
     (filter (\<lambda>m. role m \<noteq> System) (messages zero_payload)) = Inr example_converted"
    using example_claude_conversion by (simp add: zero_payload_def)
  note t = max_tokens_zero [OF n, of example_externals example_this None example_converted
      "''<s>[INST] hi [/INST]''"]
  from t c obtain cc where
    cc: "sent (invokeClaudeModel example_externals example_this zero_payload None) = [cc]"
    by blast
  from t p obtain lc where
    lc: "sent (invokeLlamaModel example_externals example_this zero_payload) = [lc]"
    by blast
  from t cc have "map_of (body cc) ''max_tokens'' = Some (Num 4096)" by simp
  moreover from t lc have "map_of (body lc) ''max_gen_len'' = Some (Num 400)" by simp
  ultimately show ?thesis using n cc lc by blast
qed

text \<open>
  C10. On the Claude path, an error \<open>e\<close> thrown by the conversion of the messages reaches
  the caller as it is, not wrapped by \<^verbatim>\<open>AgentRuntimeError.chat\<close>, and nothing is sent to the
  vendor. This happens whenever the decoder throws on the URL of an image part of a
  message that is not a \<^verbatim>\<open>system\<close> message.
\<close>

theorem conversion_error_unwrapped:
  assumes "\<not> startsWith (model payload) ''meta''"
  shows "(buildAnthropicMessages (parseDataUri ext)
            (filter (\<lambda>m. role m \<noteq> System) (messages payload)) = Inl e \<longrightarrow>
          chat ext this payload options =
            \<lparr>returned = Inl (Uncaught e), sent = [], drained = [], logged = []\<rparr>) \<and>
         (msg \<in> set (messages payload) \<and> role msg \<noteq> System \<and> content msg = PartsContent parts \<and>
          ImageUrlPart url \<in> set parts \<and> parseDataUri ext url = Inl e' \<longrightarrow>
          (\<exists>e u. parseDataUri ext u = Inl e \<and>
             chat ext this payload options =
               \<lparr>returned = Inl (Uncaught e), sent = [], drained = [], logged = []\<rparr>))"
proof (intro conjI impI)
  assume "buildAnthropicMessages (parseDataUri ext)
            (filter (\<lambda>m. role m \<noteq> System) (messages payload)) = Inl e"
  then show "chat ext this payload options =
            \<lparr>returned = Inl (Uncaught e), sent = [], drained = [], logged = []\<rparr>"
    using assms by (simp add: chat_def claude_conversion_throws)
next
  assume a: "msg \<in> set (messages payload) \<and> role msg \<noteq> System \<and> content msg = PartsContent parts \<and>
          ImageUrlPart url \<in> set parts \<and> parseDataUri ext url = Inl e'"
  then have m: "msg \<in> set (filter (\<lambda>m. role m \<noteq> System) (messages payload))" by simp
  from a have "content msg = PartsContent parts" "ImageUrlPart url \<in> set parts"
    "parseDataUri ext url = Inl e'" by simp_all
  with m have "\<exists>e. buildAnthropicMessages (parseDataUri ext)
            (filter (\<lambda>m. role m \<noteq> System) (messages payload)) = Inl e"
    by (rule buildAnthropicMessages_fails)
  then obtain e where e: "buildAnthropicMessages (parseDataUri ext)
            (filter (\<lambda>m. role m \<noteq> System) (messages payload)) = Inl e" ..
  then have "\<exists>u. parseDataUri ext u = Inl e"
    by (rule buildAnthropicMessages_Inl_parse)
  then obtain u where u: "parseDataUri ext u = Inl e" ..
  from e have "chat ext this payload options =
            \<lparr>returned = Inl (Uncaught e), sent = [], drained = [], logged = []\<rparr>"
    using assms by (simp add: chat_def claude_conversion_throws)
  with u show "\<exists>e u. parseDataUri ext u = Inl e \<and>
             chat ext this payload options =
               \<lparr>returned = Inl (Uncaught e), sent = [], drained = [], logged = []\<rparr>"
    by blast
qed

theorem conversion_error_unwrapped_witness:
  "\<not> startsWith (model malformed_payload) ''meta'' \<and>
   buildAnthropicMessages (parseDataUri example_externals)
     (filter (\<lambda>m. role m \<noteq> System) (messages malformed_payload)) = Inl malformedDataUri \<and>
   chat example_externals example_this malformed_payload None =
     \<lparr>returned = Inl (Uncaught malformedDataUri), sent = [], drained = [], logged = []\<rparr>"
proof -
  have m: "\<not> startsWith (model malformed_payload) ''meta''"
    by (simp add: malformed_payload_def claude_payload_def startsWith_def)
  have c: "buildAnthropicMessages (parseDataUri example_externals)
     (filter (\<lambda>m. role m \<noteq> System) (messages malformed_payload)) = Inl malformedDataUri"
    by (simp add: malformed_payload_def example_externals_def buildAnthropicMessages_def
        buildAnthropicMessage_def example_parse_malformed)
  from conversion_error_unwrapped [OF m, of example_externals malformedDataUri example_this None] c
  have "chat example_externals example_this malformed_payload None =
     \<lparr>returned = Inl (Uncaught malformedDataUri), sent = [], drained = [], logged = []\<rparr>"
    by blast
  with m c show ?thesis by blast
qed

end
